theory Spec2Isabelle
  imports Main
begin

section \<open>The \<open>teams team set\<close> command (team-set.ts)\<close>

text \<open>
  A shallow embedding of \<^verbatim>\<open>src/o365/teams/commands/team/team-set.ts\<close>: the class
  \<^verbatim>\<open>TeamsSetCommand\<close> with its option bag, its validation function, the field
  mapping done by \<^verbatim>\<open>commandAction\<close> and the telemetry hook.
\<close>

subsection \<open>JavaScript values of type \<open>string | undefined\<close>\<close>

text \<open>
  Every option of this command is declared as an optional string. Such a value is a
  \<^typ>\<open>string option\<close>: \<^term>\<open>None\<close> is \<^verbatim>\<open>undefined\<close>. A string is a list of
  characters; the empty string is \<^term>\<open>[] :: string\<close>.
\<close>

text \<open>
  The truthiness test of JavaScript, as in \<^verbatim>\<open>if (args.options.logoPath)\<close>:
  \<^verbatim>\<open>undefined\<close> and the empty string are falsy, every other string is truthy.
\<close>

fun truthy :: "string option \<Rightarrow> bool" where
  "truthy None = False"
| "truthy (Some s) = (s \<noteq> [])"

text \<open>
  \<^verbatim>\<open>String.prototype.toLowerCase\<close>, a built-in of the language. The letters
  \<^verbatim>\<open>A\<close> to \<^verbatim>\<open>Z\<close> are mapped to \<^verbatim>\<open>a\<close> to \<^verbatim>\<open>z\<close>; every other character is
  kept. The source only compares the result with the ASCII words
  \<^verbatim>\<open>private\<close> and \<^verbatim>\<open>public\<close>, and no string with a character outside ASCII
  has one of these words as its lower case, so the outcome of the comparison is the
  one of the program.
\<close>

definition toLowerCase_char :: "char \<Rightarrow> char" where
  "toLowerCase_char c =
     (let n = (of_char c :: nat)
      in if 65 \<le> n \<and> n \<le> 90 then char_of (n + 32) else c)"

definition toLowerCase :: "string \<Rightarrow> string" where
  "toLowerCase s = map toLowerCase_char s"

subsection \<open>The option bag\<close>

text \<open>
  Modelled from the spec: the interface \<^verbatim>\<open>Options\<close> of
  \<^verbatim>\<open>aad/services/GroupUpdateService\<close> is imported by the source and is not part of
  it. Its fields are the ones the source reads (\<^verbatim>\<open>id\<close>, \<^verbatim>\<open>isPrivate\<close>,
  \<^verbatim>\<open>logoPath\<close>), the ones it names in \<^verbatim>\<open>props\<close> and the ones of the data model of
  the spec, \<^verbatim>\<open>teamId\<close> among them. The bag so has two fields for the team id:
  \<^verbatim>\<open>teamId\<close>, the name of the flag \<^verbatim>\<open>--teamId\<close> that \<^verbatim>\<open>options()\<close> declares and
  of the field of the spec, and \<^verbatim>\<open>id\<close>, the field that \<^verbatim>\<open>validate\<close> reads. The
  field \<^verbatim>\<open>id\<close> is written \<open>id_opt\<close>, since \<^term>\<open>id\<close> is the identity function of
  HOL. The record is extensible, as the interface is.
\<close>

record Options =
  teamId :: "string option"
  id_opt :: "string option"
  displayName :: "string option"
  description :: "string option"
  owners :: "string option"
  members :: "string option"
  mailNickName :: "string option"
  classification :: "string option"
  isPrivate :: "string option"
  logoPath :: "string option"

text \<open>
  \<^verbatim>\<open>interface TeamSetOptions extends Options { visibility?: string; }\<close>
\<close>

record TeamSetOptions = Options +
  visibility :: "string option"

text \<open>
  \<^verbatim>\<open>interface CommandArgs { options: TeamSetOptions; }\<close>
\<close>

record CommandArgs =
  options :: TeamSetOptions

text \<open>The option bag of an invocation without any flag.\<close>

definition no_options :: TeamSetOptions where
  "no_options =
     \<lparr>teamId = None, id_opt = None, displayName = None, description = None, owners = None,
      members = None, mailNickName = None, classification = None,
      isPrivate = None, logoPath = None, visibility = None\<rparr>"

text \<open>
  The dynamic property read \<^verbatim>\<open>(args.options as any)[p]\<close>. A name that is not a
  field of the bag reads as \<^verbatim>\<open>undefined\<close>.
\<close>

definition property :: "string \<Rightarrow> TeamSetOptions \<Rightarrow> string option" where
  "property p opts =
     (if p = ''teamId'' then teamId opts
      else if p = ''id'' then id_opt opts
      else if p = ''displayName'' then displayName opts
      else if p = ''description'' then description opts
      else if p = ''owners'' then owners opts
      else if p = ''members'' then members opts
      else if p = ''mailNickName'' then mailNickName opts
      else if p = ''classification'' then classification opts
      else if p = ''isPrivate'' then isPrivate opts
      else if p = ''logoPath'' then logoPath opts
      else if p = ''visibility'' then visibility opts
      else None)"

text \<open>The dynamic property write \<^verbatim>\<open>options[p] = v\<close>, the counterpart of the read.\<close>

definition set_property :: "string \<Rightarrow> string option \<Rightarrow> TeamSetOptions \<Rightarrow> TeamSetOptions" where
  "set_property p v opts =
     (if p = ''teamId'' then opts\<lparr>teamId := v\<rparr>
      else if p = ''id'' then opts\<lparr>id_opt := v\<rparr>
      else if p = ''displayName'' then opts\<lparr>displayName := v\<rparr>
      else if p = ''description'' then opts\<lparr>description := v\<rparr>
      else if p = ''owners'' then opts\<lparr>owners := v\<rparr>
      else if p = ''members'' then opts\<lparr>members := v\<rparr>
      else if p = ''mailNickName'' then opts\<lparr>mailNickName := v\<rparr>
      else if p = ''classification'' then opts\<lparr>classification := v\<rparr>
      else if p = ''isPrivate'' then opts\<lparr>isPrivate := v\<rparr>
      else if p = ''logoPath'' then opts\<lparr>logoPath := v\<rparr>
      else if p = ''visibility'' then opts\<lparr>visibility := v\<rparr>
      else opts)"

text \<open>
  Modelled from the spec: the command framework that parses the command line is not
  part of the source. It builds the bag of an invocation from the flags given, each
  value under the name of its flag: the flag \<^verbatim>\<open>--teamId\<close>, declared as
  \<^verbatim>\<open>-i, --teamId <id>\<close>, under \<^verbatim>\<open>teamId\<close>, the field of the spec's request, and
  \<^verbatim>\<open>--classification\<close> under \<^verbatim>\<open>classification\<close>. An invocation is the list of its
  flags, by name, with their values. No flag of \<^verbatim>\<open>options()\<close> has the name
  \<^verbatim>\<open>id\<close>.
\<close>

definition invocation :: "(string \<times> string) list \<Rightarrow> TeamSetOptions" where
  "invocation flags = fold (\<lambda>(flag, v). set_property flag (Some v)) flags no_options"

subsection \<open>The collaborators of \<open>validate\<close>\<close>

text \<open>
  \<^verbatim>\<open>validate\<close> calls four functions that are not part of the source:
  \<^verbatim>\<open>Utils.isValidGuid\<close> of the repository, and \<^verbatim>\<open>path.resolve\<close>,
  \<^verbatim>\<open>fs.existsSync\<close> and \<^verbatim>\<open>fs.lstatSync(p).isDirectory()\<close> of the runtime, which
  depend on the working directory and on the file system. They are parameters of the
  model, so every theorem holds for every GUID test and every file system.
\<close>

record env =
  isValidGuid :: "string \<Rightarrow> bool"
  resolve :: "string \<Rightarrow> string"
  existsSync :: "string \<Rightarrow> bool"
  lstatSync_isDirectory :: "string \<Rightarrow> bool"

subsection \<open>\<open>validate\<close>\<close>

text \<open>
  The function returned by \<^verbatim>\<open>validate()\<close> has the result type
  \<^verbatim>\<open>boolean | string\<close>: a string is the message of a failed validation
  (\<^term>\<open>Inl\<close>), the boolean \<^verbatim>\<open>true\<close> is success (\<^term>\<open>Inr True\<close>).
\<close>

type_synonym validation = "string + bool"

text \<open>The five messages, as the template literals of the source build them.\<close>

definition msg_teamId_missing :: string where
  "msg_teamId_missing = ''Required parameter teamId missing''"

definition msg_guid :: "string \<Rightarrow> string" where
  "msg_guid v = v @ '' is not a valid GUID''"

definition msg_visibility :: "string \<Rightarrow> string" where
  "msg_visibility v =
     v @ '' is not a valid visibility type. Allowed values are Private|Public''"

definition msg_boolean :: "string \<Rightarrow> string" where
  "msg_boolean v = v @ '' is not a valid boolean value''"

definition msg_not_found :: "string \<Rightarrow> string" where
  "msg_not_found p = ''File '' @ [CHR 0x27] @ p @ [CHR 0x27] @ '' not found''"

definition msg_directory :: "string \<Rightarrow> string" where
  "msg_directory p =
     ''Path '' @ [CHR 0x27] @ p @ [CHR 0x27] @ '' points to a directory''"

text \<open>
  A template literal \<^verbatim>\<open>${x}\<close> with \<open>x\<close> of type \<^verbatim>\<open>string | undefined\<close>: the
  string itself, and the word \<^verbatim>\<open>undefined\<close> for \<^verbatim>\<open>undefined\<close>.
\<close>

fun template :: "string option \<Rightarrow> string" where
  "template None = ''undefined''"
| "template (Some s) = s"

text \<open>
  The body of the arrow function that \<^verbatim>\<open>validate()\<close> returns: one \<^verbatim>\<open>if\<close> of the
  source per branch, in the order of the source. A method call on an option
  (\<^verbatim>\<open>toLowerCase\<close>) or a call that takes it as a string (\<^verbatim>\<open>isValidGuid\<close>,
  \<^verbatim>\<open>path.resolve\<close>) follows a test that the option is truthy, so the model binds the
  string with \<open>case\<close>; the branch for \<^verbatim>\<open>undefined\<close> is the one the test excludes.
\<close>

definition validate :: "env \<Rightarrow> CommandArgs \<Rightarrow> validation" where
  "validate e args =
     (let opts = options args in
      if \<not> truthy (id_opt opts) then Inl msg_teamId_missing
      else if (case id_opt opts of
                 Some g \<Rightarrow> \<not> isValidGuid e g
               | None \<Rightarrow> False)
      then Inl (msg_guid (template (id_opt opts)))
      else if truthy (visibility opts) \<and>
              (case visibility opts of
                 Some v \<Rightarrow> toLowerCase v \<noteq> ''private'' \<and> toLowerCase v \<noteq> ''public''
               | None \<Rightarrow> False)
      then Inl (msg_visibility (template (visibility opts)))
      else if isPrivate opts \<noteq> None \<and>
              isPrivate opts \<noteq> Some ''true'' \<and>
              isPrivate opts \<noteq> Some ''false''
      then Inl (msg_boolean (template (isPrivate opts)))
      else if truthy (logoPath opts) then
        (case logoPath opts of
           Some p \<Rightarrow>
             (let fullPath = resolve e p in
              if \<not> existsSync e fullPath then Inl (msg_not_found fullPath)
              else if lstatSync_isDirectory e fullPath
              then Inl (msg_directory fullPath)
              else Inr True)
         | None \<Rightarrow> Inr True)
      else Inr True)"

subsection \<open>\<open>commandAction\<close> and \<open>mapTeamOptionProperties\<close>\<close>

text \<open>
  \<^verbatim>\<open>options.isPrivate = options.visibility;\<close> The source mutates the bag in place;
  the model returns the new bag.
\<close>

definition mapTeamOptionProperties :: "TeamSetOptions \<Rightarrow> TeamSetOptions" where
  "mapTeamOptionProperties opts = opts\<lparr>isPrivate := visibility opts\<rparr>"

text \<open>
  The fields of \<^verbatim>\<open>this\<close> that \<^verbatim>\<open>commandAction\<close> reads; they come from the base
  class \<^verbatim>\<open>GraphCommand\<close>. The rejection handler is opaque to this file.
\<close>

record 'h Command =
  resource :: string
  verbose :: bool
  debug :: bool
  handleRejectedODataJsonPromise :: 'h

text \<open>
  One call of \<^verbatim>\<open>GroupUpdateService.updateGroup\<close>, with its seven arguments in the
  order of the call. The service is not part of the source; the model records what
  it is given. The command instance and the callback are opaque.
\<close>

record ('c, 'k, 'h) updateGroup_call =
  arg_cmd :: 'c
  arg_resource :: string
  arg_options :: TeamSetOptions
  arg_verbose :: bool
  arg_debug :: bool
  arg_cb :: 'k
  arg_rejected :: 'h

text \<open>
  \<^verbatim>\<open>commandAction(cmd, args, cb)\<close>: the mapping step on \<^verbatim>\<open>args.options\<close>, then the
  dispatch of the same (mutated) bag. The result is the arguments after the call and
  the call made to the service.
\<close>

definition commandAction ::
  "'h Command \<Rightarrow> 'c \<Rightarrow> CommandArgs \<Rightarrow> 'k \<Rightarrow> CommandArgs \<times> ('c, 'k, 'h) updateGroup_call"
where
  "commandAction this cmd args cb =
     (let args' = args\<lparr>options := mapTeamOptionProperties (options args)\<rparr>
      in (args',
          \<lparr>arg_cmd = cmd, arg_resource = resource this, arg_options = options args',
           arg_verbose = verbose this, arg_debug = debug this, arg_cb = cb,
           arg_rejected = handleRejectedODataJsonPromise this\<rparr>))"

subsection \<open>\<open>getTelemetryProperties\<close>\<close>

text \<open>
  A telemetry property has the type \<^verbatim>\<open>any\<close>: the six properties this command sets
  are booleans, the ones of the base class are whatever the base class stores.
\<close>

datatype 'a any = Boolean bool | Other 'a

text \<open>\<^verbatim>\<open>private static props: string[]\<close>\<close>

definition props :: "string list" where
  "props = [''displayName'', ''description'', ''mailNickName'', ''classification'',
            ''visibility'', ''isPrivate'']"

text \<open>
  \<^verbatim>\<open>getTelemetryProperties(args)\<close>. The first argument is the result of
  \<^verbatim>\<open>super.getTelemetryProperties(args)\<close>, which is not part of the source. The
  \<^verbatim>\<open>forEach\<close> over \<^verbatim>\<open>props\<close> is a fold that stores one boolean per name.
\<close>

definition getTelemetryProperties ::
  "(string \<rightharpoonup> 'a any) \<Rightarrow> CommandArgs \<Rightarrow> (string \<rightharpoonup> 'a any)"
where
  "getTelemetryProperties super_props args =
     fold (\<lambda>p telemetryProps.
             telemetryProps(p \<mapsto> Boolean (property p (options args) \<noteq> None)))
          props super_props"

subsection \<open>The rules of \<open>validate\<close>, one by one\<close>

text \<open>
  The five rules of \<^verbatim>\<open>validate\<close> as separate functions, each with the condition
  and the message of its \<^verbatim>\<open>if\<close> in the source (lines 108, 111, 114, 120 and 126).
  A rule gives \<^term>\<open>Some\<close> message when it fails and \<^term>\<open>None\<close> when it passes.
\<close>

type_synonym rule = "env \<Rightarrow> TeamSetOptions \<Rightarrow> string option"

definition rule_teamId_missing :: rule where
  "rule_teamId_missing e opts =
     (if \<not> truthy (id_opt opts) then Some msg_teamId_missing else None)"

definition rule_teamId_guid :: rule where
  "rule_teamId_guid e opts =
     (case id_opt opts of
        Some g \<Rightarrow> if \<not> isValidGuid e g then Some (msg_guid g) else None
      | None \<Rightarrow> None)"

definition rule_visibility :: rule where
  "rule_visibility e opts =
     (case visibility opts of
        Some v \<Rightarrow>
          if v \<noteq> [] \<and> toLowerCase v \<noteq> ''private'' \<and> toLowerCase v \<noteq> ''public''
          then Some (msg_visibility v) else None
      | None \<Rightarrow> None)"

definition rule_isPrivate :: rule where
  "rule_isPrivate e opts =
     (case isPrivate opts of
        Some b \<Rightarrow> if b \<noteq> ''true'' \<and> b \<noteq> ''false'' then Some (msg_boolean b) else None
      | None \<Rightarrow> None)"

definition rule_logoPath :: rule where
  "rule_logoPath e opts =
     (case logoPath opts of
        Some p \<Rightarrow>
          if p = [] then None
          else if \<not> existsSync e (resolve e p) then Some (msg_not_found (resolve e p))
          else if lstatSync_isDirectory e (resolve e p)
          then Some (msg_directory (resolve e p))
          else None
      | None \<Rightarrow> None)"

definition rules :: "rule list" where
  "rules = [rule_teamId_missing, rule_teamId_guid, rule_visibility, rule_isPrivate,
            rule_logoPath]"

text \<open>
  The rules on the visibility and on the logo path as the specification words them,
  for comparison with the two of the source: the visibility is checked whenever it is
  present, the logo path is resolved and checked whenever it is present. The empty
  string is a value that is present.
\<close>

definition claimed_rule_visibility :: rule where
  "claimed_rule_visibility e opts =
     (case visibility opts of
        Some v \<Rightarrow>
          if toLowerCase v \<noteq> ''private'' \<and> toLowerCase v \<noteq> ''public''
          then Some (msg_visibility v) else None
      | None \<Rightarrow> None)"

definition claimed_rule_logoPath :: rule where
  "claimed_rule_logoPath e opts =
     (case logoPath opts of
        Some p \<Rightarrow>
          if \<not> existsSync e (resolve e p) then Some (msg_not_found (resolve e p))
          else if lstatSync_isDirectory e (resolve e p)
          then Some (msg_directory (resolve e p))
          else None
      | None \<Rightarrow> None)"

definition claimed_rules :: "rule list" where
  "claimed_rules = [rule_teamId_missing, rule_teamId_guid, claimed_rule_visibility,
                    rule_isPrivate, claimed_rule_logoPath]"

text \<open>
  Running a list of rules in order: the message of the first rule that fails, and no
  later rule is looked at; \<^verbatim>\<open>true\<close> when the list is exhausted.
\<close>

fun first_failure :: "rule list \<Rightarrow> env \<Rightarrow> TeamSetOptions \<Rightarrow> validation" where
  "first_failure [] e opts = Inr True"
| "first_failure (r # rs) e opts =
     (case r e opts of Some m \<Rightarrow> Inl m | None \<Rightarrow> first_failure rs e opts)"

subsection \<open>A sample environment\<close>

text \<open>
  Modelled from the spec: \<^verbatim>\<open>Utils.isValidGuid\<close> is not part of the source. The spec
  asks for a syntactically valid GUID, the canonical format of a resource id: five
  groups of 8, 4, 4, 4 and 12 hexadecimal digits, separated by hyphens. It is used
  for the examples only; the theorems hold for every GUID test.
\<close>

definition isHexDigit :: "char \<Rightarrow> bool" where
  "isHexDigit c =
     (let n = (of_char c :: nat)
      in (48 \<le> n \<and> n \<le> 57) \<or> (65 \<le> n \<and> n \<le> 70) \<or> (97 \<le> n \<and> n \<le> 102))"

fun guid_groups :: "nat list \<Rightarrow> string \<Rightarrow> bool" where
  "guid_groups [] s = False"
| "guid_groups [n] s = (length s = n \<and> list_all isHexDigit s)"
| "guid_groups (n # m # ns) s =
     (length (take n s) = n \<and> list_all isHexDigit (take n s) \<and>
      (case drop n s of
         [] \<Rightarrow> False
       | c # rest \<Rightarrow> c = CHR ''-'' \<and> guid_groups (m # ns) rest))"

definition isValidGuid_format :: "string \<Rightarrow> bool" where
  "isValidGuid_format s = guid_groups [8, 4, 4, 4, 12] s"

text \<open>
  A small file system for the examples: the working directory \<^verbatim>\<open>/home/user\<close>
  holds the directory \<^verbatim>\<open>images\<close> with the file \<^verbatim>\<open>logo.png\<close>. A relative path is
  resolved against the working directory, the empty path to the working directory
  itself, as \<^verbatim>\<open>path.resolve\<close> does.
\<close>

definition sample_env :: env where
  "sample_env =
     \<lparr>isValidGuid = isValidGuid_format,
      resolve = (\<lambda>p. case p of
                   [] \<Rightarrow> ''/home/user''
                 | c # _ \<Rightarrow> if c = CHR ''/'' then p else ''/home/user/'' @ p),
      existsSync = (\<lambda>p. p = ''/home/user'' \<or> p = ''/home/user/images'' \<or>
                        p = ''/home/user/images/logo.png''),
      lstatSync_isDirectory = (\<lambda>p. p = ''/home/user'' \<or> p = ''/home/user/images'')\<rparr>"

definition zero_guid :: string where
  "zero_guid = ''00000000-0000-0000-0000-000000000000''"

text \<open>
  A bag with the all-zero GUID in the field \<^verbatim>\<open>id\<close>, the one \<^verbatim>\<open>validate\<close> reads, and
  nothing else.
\<close>

definition team_options :: TeamSetOptions where
  "team_options = no_options\<lparr>id_opt := Some zero_guid\<rparr>"

section \<open>Properties\<close>

subsection \<open>Auxiliary facts\<close>

lemmas rule_defs = rule_teamId_missing_def rule_teamId_guid_def rule_visibility_def
  rule_isPrivate_def rule_logoPath_def

text \<open>
  The messages of the last three rules end in different characters, so no two of
  them are the same string, whatever the option values are.
\<close>

lemma msg_distinct:
  "msg_visibility v \<noteq> msg_boolean b" "msg_boolean b \<noteq> msg_visibility v"
  "msg_visibility v \<noteq> msg_not_found p" "msg_visibility v \<noteq> msg_directory p"
  "msg_not_found p \<noteq> msg_visibility v" "msg_directory p \<noteq> msg_visibility v"
  "msg_boolean b \<noteq> msg_not_found p" "msg_boolean b \<noteq> msg_directory p"
  "msg_not_found p \<noteq> msg_boolean b" "msg_directory p \<noteq> msg_boolean b"
  by (auto simp: msg_visibility_def msg_boolean_def msg_not_found_def msg_directory_def
      dest: arg_cong [where f = last])

text \<open>\<^verbatim>\<open>validate\<close> is the five rules run in the order of the source.\<close>

lemma validate_first_failure: "validate e args = first_failure rules e (options args)"
  by (cases "id_opt (options args)"; cases "visibility (options args)";
      cases "isPrivate (options args)"; cases "logoPath (options args)")
     (simp_all add: validate_def rules_def rule_defs Let_def)

lemma first_failure_prefix:
  "\<forall>q \<in> set ps. q e opts = None \<Longrightarrow> r e opts = Some m \<Longrightarrow>
   first_failure (ps @ r # rs) e opts = Inl m"
  by (induction ps) simp_all

lemma first_failure_True:
  "(first_failure rs e opts = Inr True) = (\<forall>r \<in> set rs. r e opts = None)"
  by (induction rs) (auto split: option.splits)

lemma telemetry_unfold:
  "getTelemetryProperties super_props args =
     super_props
       (''displayName'' \<mapsto> Boolean (displayName (options args) \<noteq> None),
        ''description'' \<mapsto> Boolean (description (options args) \<noteq> None),
        ''mailNickName'' \<mapsto> Boolean (mailNickName (options args) \<noteq> None),
        ''classification'' \<mapsto> Boolean (classification (options args) \<noteq> None),
        ''visibility'' \<mapsto> Boolean (visibility (options args) \<noteq> None),
        ''isPrivate'' \<mapsto> Boolean (isPrivate (options args) \<noteq> None))"
  by (simp add: getTelemetryProperties_def props_def property_def)

subsection \<open>Validation\<close>

text \<open>
  C1. When the option \<^verbatim>\<open>id\<close> (the team id) is \<^verbatim>\<open>undefined\<close>, \<^verbatim>\<open>validate\<close>
  returns exactly the string \<^verbatim>\<open>Required parameter teamId missing\<close>, whatever the
  other options, the GUID test and the file system are: no other rule has a say.
\<close>

theorem validate_teamId_missing:
  "id_opt (options args) = None \<Longrightarrow>
   validate e args = Inl ''Required parameter teamId missing''"
  by (simp add: validate_def msg_teamId_missing_def)

text \<open>
  An instance in which every later rule would fail: the visibility is not a
  visibility type, \<^verbatim>\<open>isPrivate\<close> is not a boolean, the logo does not exist.
\<close>

theorem validate_teamId_missing_witness:
  "id_opt (options \<lparr>options = no_options\<lparr>visibility := Some ''Hidden'',
      isPrivate := Some ''yes'', logoPath := Some ''nowhere''\<rparr>\<rparr>) = None \<and>
   validate sample_env \<lparr>options = no_options\<lparr>visibility := Some ''Hidden'',
      isPrivate := Some ''yes'', logoPath := Some ''nowhere''\<rparr>\<rparr>
     = Inl ''Required parameter teamId missing''"
  using validate_teamId_missing [of "\<lparr>options = no_options\<lparr>visibility := Some ''Hidden'',
      isPrivate := Some ''yes'', logoPath := Some ''nowhere''\<rparr>\<rparr>" sample_env]
  by (simp add: no_options_def)

text \<open>
  C3, as the source has it. When the two rules on the team id pass and the option
  \<^verbatim>\<open>visibility\<close> is a string other than the empty string, \<^verbatim>\<open>validate\<close> returns the
  message \<^verbatim>\<open><value> is not a valid visibility type. Allowed values are Private|Public\<close>
  exactly when the value in lower case is neither \<^verbatim>\<open>private\<close> nor \<^verbatim>\<open>public\<close>. The
  values \<^verbatim>\<open>private\<close>, \<^verbatim>\<open>PUBLIC\<close> and \<^verbatim>\<open>Public\<close> are accepted: the result is then
  the one of the two later rules.
\<close>

theorem validate_visibility:
  assumes "rule_teamId_missing e (options args) = None"
      and "rule_teamId_guid e (options args) = None"
      and "visibility (options args) = Some v"
      and "v \<noteq> []"
  shows "(validate e args =
            Inl (v @ '' is not a valid visibility type. Allowed values are Private|Public''))
         = (toLowerCase v \<noteq> ''private'' \<and> toLowerCase v \<noteq> ''public'')
       \<and> (v = ''private'' \<or> v = ''PUBLIC'' \<or> v = ''Public'' \<longrightarrow>
            validate e args = first_failure [rule_isPrivate, rule_logoPath] e (options args))"
proof -
  have lower: "toLowerCase ''private'' = ''private''" "toLowerCase ''PUBLIC'' = ''public''"
    "toLowerCase ''Public'' = ''public''"
    by code_simp+
  have v: "validate e args = first_failure [rule_visibility, rule_isPrivate, rule_logoPath] e (options args)"
    using assms(1,2) by (simp add: validate_first_failure rules_def)
  have bad: "validate e args = Inl (msg_visibility v)"
    if "toLowerCase v \<noteq> ''private'' \<and> toLowerCase v \<noteq> ''public''"
    using that assms(3,4) by (simp add: v rule_visibility_def)
  have good: "validate e args = first_failure [rule_isPrivate, rule_logoPath] e (options args)"
    if "\<not> (toLowerCase v \<noteq> ''private'' \<and> toLowerCase v \<noteq> ''public'')"
    using that assms(3,4) by (auto simp add: v rule_visibility_def)
  have later: "first_failure [rule_isPrivate, rule_logoPath] e (options args) \<noteq> Inl (msg_visibility v)"
    by (auto simp: rule_isPrivate_def rule_logoPath_def msg_distinct split: option.splits)
  show ?thesis
    using bad good later lower by (auto simp: msg_visibility_def)
qed

theorem validate_visibility_witness:
  "rule_teamId_missing sample_env (team_options\<lparr>visibility := Some ''PUBLIC''\<rparr>) = None \<and>
   rule_teamId_guid sample_env (team_options\<lparr>visibility := Some ''PUBLIC''\<rparr>) = None \<and>
   visibility (team_options\<lparr>visibility := Some ''PUBLIC''\<rparr>) = Some ''PUBLIC'' \<and>
   ''PUBLIC'' \<noteq> [] \<and>
   validate sample_env \<lparr>options = team_options\<lparr>visibility := Some ''PUBLIC''\<rparr>\<rparr> \<noteq>
     Inl ''PUBLIC is not a valid visibility type. Allowed values are Private|Public'' \<and>
   validate sample_env \<lparr>options = team_options\<lparr>visibility := Some ''Secret''\<rparr>\<rparr> =
     Inl ''Secret is not a valid visibility type. Allowed values are Private|Public''"
proof -
  have g: "isValidGuid_format ''00000000-0000-0000-0000-000000000000''"
    by (simp add: isValidGuid_format_def isHexDigit_def)
  have h: "rule_teamId_missing sample_env (team_options\<lparr>visibility := x\<rparr>) = None"
    "rule_teamId_guid sample_env (team_options\<lparr>visibility := x\<rparr>) = None" for x
    using g by (simp_all add: rule_teamId_missing_def rule_teamId_guid_def team_options_def
        no_options_def sample_env_def zero_guid_def)
  have up: "toLowerCase ''PUBLIC'' = ''public''" "toLowerCase ''Secret'' = ''secret''"
    by code_simp+
  have a: "validate sample_env \<lparr>options = team_options\<lparr>visibility := Some ''PUBLIC''\<rparr>\<rparr> \<noteq>
     Inl ''PUBLIC is not a valid visibility type. Allowed values are Private|Public''"
    using validate_visibility [where e = sample_env and v = "''PUBLIC''" and
        args = "\<lparr>options = team_options\<lparr>visibility := Some ''PUBLIC''\<rparr>\<rparr>", THEN conjunct1]
    by (simp add: h up)
  have b: "validate sample_env \<lparr>options = team_options\<lparr>visibility := Some ''Secret''\<rparr>\<rparr> =
     Inl ''Secret is not a valid visibility type. Allowed values are Private|Public''"
    using validate_visibility [where e = sample_env and v = "''Secret''" and
        args = "\<lparr>options = team_options\<lparr>visibility := Some ''Secret''\<rparr>\<rparr>", THEN conjunct1]
    by (simp add: h up)
  show ?thesis using a b h by simp
qed

text \<open>
  The test of the source is \<^verbatim>\<open>args.options.visibility && ...\<close>, and the empty string
  is falsy: a visibility that is present as the empty string is outside
  \<^verbatim>\<open>private\<close> and \<^verbatim>\<open>public\<close>, and validation passes all the same.
\<close>

theorem validate_visibility_empty_counterexample:
  "rule_teamId_missing sample_env (team_options\<lparr>visibility := Some []\<rparr>) = None \<and>
   rule_teamId_guid sample_env (team_options\<lparr>visibility := Some []\<rparr>) = None \<and>
   visibility (team_options\<lparr>visibility := Some []\<rparr>) \<noteq> None \<and>
   toLowerCase [] \<noteq> ''private'' \<and> toLowerCase [] \<noteq> ''public'' \<and>
   validate sample_env \<lparr>options = team_options\<lparr>visibility := Some []\<rparr>\<rparr> = Inr True"
proof -
  have g: "isValidGuid_format ''00000000-0000-0000-0000-000000000000''"
    by (simp add: isValidGuid_format_def isHexDigit_def)
  show ?thesis
    using g by (simp add: validate_def rule_teamId_missing_def rule_teamId_guid_def
        team_options_def no_options_def sample_env_def zero_guid_def toLowerCase_def)
qed

text \<open>
  For every bag: a visibility that is the empty string leaves the result to the four
  other rules.
\<close>

lemma validate_visibility_empty_skipped:
  "visibility (options args) = Some [] \<Longrightarrow>
   validate e args =
     first_failure [rule_teamId_missing, rule_teamId_guid, rule_isPrivate, rule_logoPath]
       e (options args)"
  by (simp add: validate_first_failure rules_def rule_visibility_def split: option.splits)

text \<open>
  C4. When the rules on the team id and on the visibility pass and the option
  \<^verbatim>\<open>isPrivate\<close> is not \<^verbatim>\<open>undefined\<close>, \<^verbatim>\<open>validate\<close> returns the message
  \<^verbatim>\<open><value> is not a valid boolean value\<close> exactly when the value is neither the
  string \<^verbatim>\<open>true\<close> nor the string \<^verbatim>\<open>false\<close>.
\<close>

theorem validate_isPrivate:
  assumes "rule_teamId_missing e (options args) = None"
      and "rule_teamId_guid e (options args) = None"
      and "rule_visibility e (options args) = None"
      and "isPrivate (options args) = Some b"
  shows "(validate e args = Inl (b @ '' is not a valid boolean value''))
         = (b \<noteq> ''true'' \<and> b \<noteq> ''false'')"
proof -
  have v: "validate e args = first_failure [rule_isPrivate, rule_logoPath] e (options args)"
    using assms(1-3) by (simp add: validate_first_failure rules_def)
  have later: "first_failure [rule_logoPath] e (options args) \<noteq> Inl (msg_boolean b)"
    by (auto simp: rule_logoPath_def msg_distinct split: option.splits)
  show ?thesis
  proof (cases "b \<noteq> ''true'' \<and> b \<noteq> ''false''")
    case True
    then show ?thesis using assms(4) by (simp add: v rule_isPrivate_def msg_boolean_def)
  next
    case False
    then have "validate e args = first_failure [rule_logoPath] e (options args)"
      using assms(4) by (auto simp: v rule_isPrivate_def)
    then show ?thesis using False later by (simp add: msg_boolean_def)
  qed
qed

text \<open>The empty string is present and is not a boolean.\<close>

theorem validate_isPrivate_witness:
  "rule_teamId_missing sample_env (team_options\<lparr>isPrivate := Some []\<rparr>) = None \<and>
   rule_teamId_guid sample_env (team_options\<lparr>isPrivate := Some []\<rparr>) = None \<and>
   rule_visibility sample_env (team_options\<lparr>isPrivate := Some []\<rparr>) = None \<and>
   isPrivate (team_options\<lparr>isPrivate := Some []\<rparr>) = Some [] \<and>
   validate sample_env \<lparr>options = team_options\<lparr>isPrivate := Some []\<rparr>\<rparr> =
     Inl '' is not a valid boolean value''"
proof -
  have g: "isValidGuid_format ''00000000-0000-0000-0000-000000000000''"
    by (simp add: isValidGuid_format_def isHexDigit_def)
  have h: "rule_teamId_missing sample_env (team_options\<lparr>isPrivate := Some []\<rparr>) = None"
    "rule_teamId_guid sample_env (team_options\<lparr>isPrivate := Some []\<rparr>) = None"
    "rule_visibility sample_env (team_options\<lparr>isPrivate := Some []\<rparr>) = None"
    using g by (simp_all add: rule_teamId_missing_def rule_teamId_guid_def rule_visibility_def
        team_options_def no_options_def sample_env_def zero_guid_def)
  show ?thesis
    using validate_isPrivate [of sample_env
        "\<lparr>options = team_options\<lparr>isPrivate := Some []\<rparr>\<rparr>" "[]"] h
    by simp
qed

text \<open>
  C5, as the source has it. When the four earlier rules pass and the option
  \<^verbatim>\<open>logoPath\<close> is a string other than the empty string, \<^verbatim>\<open>validate\<close> resolves it
  and returns \<^verbatim>\<open>File '<resolved path>' not found\<close> when nothing exists at the resolved
  path, else \<^verbatim>\<open>Path '<resolved path>' points to a directory\<close> when it is a directory,
  else \<^verbatim>\<open>true\<close>.
\<close>

theorem validate_logoPath:
  assumes "rule_teamId_missing e (options args) = None"
      and "rule_teamId_guid e (options args) = None"
      and "rule_visibility e (options args) = None"
      and "rule_isPrivate e (options args) = None"
      and "logoPath (options args) = Some p"
      and "p \<noteq> []"
  shows "validate e args =
           (if \<not> existsSync e (resolve e p) then Inl (msg_not_found (resolve e p))
            else if lstatSync_isDirectory e (resolve e p)
            then Inl (msg_directory (resolve e p))
            else Inr True)"
  using assms by (simp add: validate_first_failure rules_def rule_logoPath_def)

text \<open>A file, a directory and a path that does not exist.\<close>

theorem validate_logoPath_witness:
  "rule_teamId_missing sample_env (team_options\<lparr>logoPath := Some ''images/logo.png''\<rparr>) = None \<and>
   rule_teamId_guid sample_env (team_options\<lparr>logoPath := Some ''images/logo.png''\<rparr>) = None \<and>
   rule_visibility sample_env (team_options\<lparr>logoPath := Some ''images/logo.png''\<rparr>) = None \<and>
   rule_isPrivate sample_env (team_options\<lparr>logoPath := Some ''images/logo.png''\<rparr>) = None \<and>
   logoPath (team_options\<lparr>logoPath := Some ''images/logo.png''\<rparr>) = Some ''images/logo.png'' \<and>
   ''images/logo.png'' \<noteq> [] \<and>
   validate sample_env \<lparr>options = team_options\<lparr>logoPath := Some ''images/logo.png''\<rparr>\<rparr> = Inr True \<and>
   validate sample_env \<lparr>options = team_options\<lparr>logoPath := Some ''images''\<rparr>\<rparr> =
     Inl (msg_directory ''/home/user/images'') \<and>
   validate sample_env \<lparr>options = team_options\<lparr>logoPath := Some ''logo.png''\<rparr>\<rparr> =
     Inl (msg_not_found ''/home/user/logo.png'')"
proof -
  have g: "isValidGuid_format ''00000000-0000-0000-0000-000000000000''"
    by (simp add: isValidGuid_format_def isHexDigit_def)
  have h: "rule_teamId_missing sample_env (team_options\<lparr>logoPath := x\<rparr>) = None"
    "rule_teamId_guid sample_env (team_options\<lparr>logoPath := x\<rparr>) = None"
    "rule_visibility sample_env (team_options\<lparr>logoPath := x\<rparr>) = None"
    "rule_isPrivate sample_env (team_options\<lparr>logoPath := x\<rparr>) = None" for x
    using g by (simp_all add: rule_teamId_missing_def rule_teamId_guid_def rule_visibility_def
        rule_isPrivate_def team_options_def no_options_def sample_env_def zero_guid_def)
  have a: "validate sample_env \<lparr>options = team_options\<lparr>logoPath := Some ''images/logo.png''\<rparr>\<rparr>
     = Inr True"
    using validate_logoPath [where e = sample_env and p = "''images/logo.png''" and
        args = "\<lparr>options = team_options\<lparr>logoPath := Some ''images/logo.png''\<rparr>\<rparr>"]
    by (simp add: h) (simp add: sample_env_def)
  have b: "validate sample_env \<lparr>options = team_options\<lparr>logoPath := Some ''images''\<rparr>\<rparr> =
     Inl (msg_directory ''/home/user/images'')"
    using validate_logoPath [where e = sample_env and p = "''images''" and
        args = "\<lparr>options = team_options\<lparr>logoPath := Some ''images''\<rparr>\<rparr>"]
    by (simp add: h) (simp add: sample_env_def)
  have c: "validate sample_env \<lparr>options = team_options\<lparr>logoPath := Some ''logo.png''\<rparr>\<rparr> =
     Inl (msg_not_found ''/home/user/logo.png'')"
    using validate_logoPath [where e = sample_env and p = "''logo.png''" and
        args = "\<lparr>options = team_options\<lparr>logoPath := Some ''logo.png''\<rparr>\<rparr>"]
    by (simp add: h) (simp add: sample_env_def)
  show ?thesis using a b c h by simp
qed

text \<open>
  The test of the source is \<^verbatim>\<open>if (args.options.logoPath)\<close>: a logo path that is
  present as the empty string is never resolved. It would resolve to the working
  directory, which exists and is a directory, and validation passes.
\<close>

theorem validate_logoPath_empty_counterexample:
  "rule_teamId_missing sample_env (team_options\<lparr>logoPath := Some []\<rparr>) = None \<and>
   rule_teamId_guid sample_env (team_options\<lparr>logoPath := Some []\<rparr>) = None \<and>
   rule_visibility sample_env (team_options\<lparr>logoPath := Some []\<rparr>) = None \<and>
   rule_isPrivate sample_env (team_options\<lparr>logoPath := Some []\<rparr>) = None \<and>
   logoPath (team_options\<lparr>logoPath := Some []\<rparr>) \<noteq> None \<and>
   resolve sample_env [] = ''/home/user'' \<and>
   existsSync sample_env ''/home/user'' \<and>
   lstatSync_isDirectory sample_env ''/home/user'' \<and>
   validate sample_env \<lparr>options = team_options\<lparr>logoPath := Some []\<rparr>\<rparr> = Inr True \<and>
   validate sample_env \<lparr>options = team_options\<lparr>logoPath := Some []\<rparr>\<rparr> \<noteq>
     Inl (msg_directory ''/home/user'')"
proof -
  have g: "isValidGuid_format ''00000000-0000-0000-0000-000000000000''"
    by (simp add: isValidGuid_format_def isHexDigit_def)
  show ?thesis
    using g by (simp add: validate_def rule_teamId_missing_def rule_teamId_guid_def
        rule_visibility_def rule_isPrivate_def
        team_options_def no_options_def sample_env_def zero_guid_def)
qed

text \<open>
  For every bag: a logo path that is the empty string leaves the result to the four
  other rules, and the file system is not asked.
\<close>

lemma validate_logoPath_empty_skipped:
  "logoPath (options args) = Some [] \<Longrightarrow>
   validate e args =
     first_failure [rule_teamId_missing, rule_teamId_guid, rule_visibility, rule_isPrivate]
       e (options args)"
  by (simp add: validate_first_failure rules_def rule_logoPath_def split: option.splits)

text \<open>
  C6, as the source has it. \<^verbatim>\<open>validate\<close> runs five rules in the fixed order team id
  missing, team id not a GUID, visibility, \<^verbatim>\<open>isPrivate\<close>, logo path. It returns the
  message of the first rule that fails, whatever the later rules say, and it returns
  \<^verbatim>\<open>true\<close> exactly when every rule passes. The rules are: the team id is
  \<^verbatim>\<open>undefined\<close> or empty; the team id fails the GUID test; the visibility is
  not the empty string and is outside \<^verbatim>\<open>private\<close> and \<^verbatim>\<open>public\<close>; \<^verbatim>\<open>isPrivate\<close>
  is defined and is neither \<^verbatim>\<open>true\<close> nor \<^verbatim>\<open>false\<close>; the logo path is not the empty
  string and is missing or a directory. The rules on the visibility and on the logo
  path are the ones of the specification but for the empty string, which they let
  pass.
\<close>

theorem validate_rule_order:
  "validate e args =
     first_failure [rule_teamId_missing, rule_teamId_guid, rule_visibility,
                    rule_isPrivate, rule_logoPath] e (options args)
   \<and> (\<forall>ps r rs m. rules = ps @ r # rs \<and> (\<forall>q \<in> set ps. q e (options args) = None) \<and>
          r e (options args) = Some m \<longrightarrow> validate e args = Inl m)
   \<and> ((validate e args = Inr True) = (\<forall>r \<in> set rules. r e (options args) = None))
   \<and> rule_teamId_missing e (options args) =
        (if id_opt (options args) = None \<or> id_opt (options args) = Some []
         then Some ''Required parameter teamId missing'' else None)
   \<and> (\<forall>g. id_opt (options args) = Some g \<longrightarrow>
          rule_teamId_guid e (options args) =
            (if isValidGuid e g then None else Some (g @ '' is not a valid GUID'')))
   \<and> (\<forall>g. id_opt (options args) = Some g \<and> g \<noteq> [] \<and> \<not> isValidGuid e g \<longrightarrow>
          validate e args = Inl (g @ '' is not a valid GUID''))
   \<and> rule_visibility e (options args) =
        (if visibility (options args) = Some [] then None
         else claimed_rule_visibility e (options args))
   \<and> (\<forall>b. isPrivate (options args) = Some b \<longrightarrow>
          rule_isPrivate e (options args) =
            (if b \<noteq> ''true'' \<and> b \<noteq> ''false''
             then Some (b @ '' is not a valid boolean value'') else None))
   \<and> rule_logoPath e (options args) =
        (if logoPath (options args) = Some [] then None
         else claimed_rule_logoPath e (options args))"
proof -
  have v: "validate e args = first_failure rules e (options args)"
    by (rule validate_first_failure)
  have a: "validate e args = Inl m"
    if "rules = ps @ r # rs" "\<forall>q \<in> set ps. q e (options args) = None"
       "r e (options args) = Some m" for ps r rs m
    using that first_failure_prefix [of ps e "options args" r m rs] by (simp add: v)
  have b: "(validate e args = Inr True) = (\<forall>r \<in> set rules. r e (options args) = None)"
    by (simp only: v first_failure_True)
  from v have c: "validate e args =
     first_failure [rule_teamId_missing, rule_teamId_guid, rule_visibility,
                    rule_isPrivate, rule_logoPath] e (options args)"
    by (simp add: rules_def)
  have r1: "rule_teamId_missing e (options args) =
        (if id_opt (options args) = None \<or> id_opt (options args) = Some []
         then Some ''Required parameter teamId missing'' else None)"
    by (cases "id_opt (options args)") (simp_all add: rule_teamId_missing_def msg_teamId_missing_def)
  have r2: "rule_teamId_guid e (options args) =
            (if isValidGuid e g then None else Some (g @ '' is not a valid GUID''))"
    if "id_opt (options args) = Some g" for g
    using that by (simp add: rule_teamId_guid_def msg_guid_def)
  have r2v: "validate e args = Inl (g @ '' is not a valid GUID'')"
    if "id_opt (options args) = Some g \<and> g \<noteq> [] \<and> \<not> isValidGuid e g" for g
    using that by (simp add: validate_def msg_guid_def)
  have r3: "rule_visibility e (options args) =
        (if visibility (options args) = Some [] then None
         else claimed_rule_visibility e (options args))"
    by (auto simp: rule_visibility_def claimed_rule_visibility_def split: option.splits)
  have r4: "rule_isPrivate e (options args) =
            (if b \<noteq> ''true'' \<and> b \<noteq> ''false''
             then Some (b @ '' is not a valid boolean value'') else None)"
    if "isPrivate (options args) = Some b" for b
    using that by (simp add: rule_isPrivate_def msg_boolean_def)
  have r5: "rule_logoPath e (options args) =
        (if logoPath (options args) = Some [] then None
         else claimed_rule_logoPath e (options args))"
    by (auto simp: rule_logoPath_def claimed_rule_logoPath_def split: option.splits)
  show ?thesis
    apply (intro conjI allI impI)
    subgoal by (rule c)
    subgoal for ps r rs m using a [of ps r rs m] by blast
    subgoal by (rule b)
    subgoal by (rule r1)
    subgoal for g by (rule r2)
    subgoal for g by (rule r2v)
    subgoal by (rule r3)
    subgoal for b by (rule r4)
    subgoal by (rule r5)
    done
qed

text \<open>
  The visibility rule is the first to fail; the rules on \<^verbatim>\<open>isPrivate\<close> and on the
  logo path would fail too and are not heard. A team id that is not a GUID gets the
  message of the second rule.
\<close>

theorem validate_rule_order_witness:
  "rules = [rule_teamId_missing, rule_teamId_guid] @ rule_visibility # [rule_isPrivate, rule_logoPath] \<and>
   rule_teamId_missing sample_env (team_options\<lparr>visibility := Some ''Secret'', isPrivate := Some ''yes'',
                                      logoPath := Some ''nowhere''\<rparr>) = None \<and>
   rule_teamId_guid sample_env (team_options\<lparr>visibility := Some ''Secret'', isPrivate := Some ''yes'',
                                      logoPath := Some ''nowhere''\<rparr>) = None \<and>
   rule_visibility sample_env (team_options\<lparr>visibility := Some ''Secret'', isPrivate := Some ''yes'',
                                      logoPath := Some ''nowhere''\<rparr>) = Some (msg_visibility ''Secret'') \<and>
   rule_isPrivate sample_env (team_options\<lparr>visibility := Some ''Secret'', isPrivate := Some ''yes'',
                                      logoPath := Some ''nowhere''\<rparr>) = Some (msg_boolean ''yes'') \<and>
   validate sample_env \<lparr>options = team_options\<lparr>visibility := Some ''Secret'', isPrivate := Some ''yes'',
                                      logoPath := Some ''nowhere''\<rparr>\<rparr> = Inl (msg_visibility ''Secret'') \<and>
   id_opt (no_options\<lparr>id_opt := Some ''abc''\<rparr>) = Some ''abc'' \<and>
   \<not> isValidGuid sample_env ''abc'' \<and>
   validate sample_env \<lparr>options = no_options\<lparr>id_opt := Some ''abc''\<rparr>\<rparr> =
     Inl ''abc is not a valid GUID''"
proof -
  let ?o = "team_options\<lparr>visibility := Some ''Secret'', isPrivate := Some ''yes'',
                                      logoPath := Some ''nowhere''\<rparr>"
  have g: "isValidGuid_format ''00000000-0000-0000-0000-000000000000''"
    by (simp add: isValidGuid_format_def isHexDigit_def)
  have low: "toLowerCase ''Secret'' = ''secret''"
    by code_simp
  have h: "rule_teamId_missing sample_env ?o = None" "rule_teamId_guid sample_env ?o = None"
    using g by (simp_all add: rule_teamId_missing_def rule_teamId_guid_def
        team_options_def no_options_def sample_env_def zero_guid_def)
  have r: "rule_visibility sample_env ?o = Some (msg_visibility ''Secret'')"
    by (simp add: rule_visibility_def low)
  have p: "rule_isPrivate sample_env ?o = Some (msg_boolean ''yes'')"
    by (simp add: rule_isPrivate_def)
  have s: "rules = [rule_teamId_missing, rule_teamId_guid] @ rule_visibility # [rule_isPrivate, rule_logoPath]"
    by (simp add: rules_def)
  have "validate sample_env \<lparr>options = ?o\<rparr> = Inl (msg_visibility ''Secret'')"
    using validate_rule_order [of sample_env "\<lparr>options = ?o\<rparr>", THEN conjunct2, THEN conjunct1,
        rule_format, of "[rule_teamId_missing, rule_teamId_guid]" rule_visibility
        "[rule_isPrivate, rule_logoPath]" "msg_visibility ''Secret''"]
      s h r by simp
  moreover have n: "\<not> isValidGuid sample_env ''abc''"
    by (simp add: sample_env_def isValidGuid_format_def)
  moreover have "validate sample_env \<lparr>options = no_options\<lparr>id_opt := Some ''abc''\<rparr>\<rparr> =
     Inl ''abc is not a valid GUID''"
    using validate_rule_order [of sample_env "\<lparr>options = no_options\<lparr>id_opt := Some ''abc''\<rparr>\<rparr>",
        THEN conjunct2, THEN conjunct2, THEN conjunct2, THEN conjunct2, THEN conjunct2,
        THEN conjunct1, rule_format, of "''abc''"] n
    by (simp add: no_options_def)
  ultimately show ?thesis using s h r p by (simp add: no_options_def)
qed

text \<open>
  With the rules on the visibility and on the logo path as the specification words
  them, the chain and \<^verbatim>\<open>validate\<close> part on the empty string. With an empty
  visibility and \<^verbatim>\<open>isPrivate\<close> equal to \<^verbatim>\<open>yes\<close> the third rule would be the first
  to fail, and \<^verbatim>\<open>validate\<close> returns the message of the fourth. With an empty logo
  path the fifth rule would fail on the working directory, and \<^verbatim>\<open>validate\<close>
  returns \<^verbatim>\<open>true\<close>.
\<close>

theorem validate_rule_order_counterexample:
  "first_failure claimed_rules sample_env
     (team_options\<lparr>visibility := Some [], isPrivate := Some ''yes''\<rparr>) =
     Inl '' is not a valid visibility type. Allowed values are Private|Public'' \<and>
   validate sample_env \<lparr>options = team_options\<lparr>visibility := Some [], isPrivate := Some ''yes''\<rparr>\<rparr> =
     Inl ''yes is not a valid boolean value'' \<and>
   first_failure claimed_rules sample_env (team_options\<lparr>logoPath := Some []\<rparr>) =
     Inl (msg_directory ''/home/user'') \<and>
   validate sample_env \<lparr>options = team_options\<lparr>logoPath := Some []\<rparr>\<rparr> = Inr True"
proof -
  have g: "isValidGuid_format ''00000000-0000-0000-0000-000000000000''"
    by (simp add: isValidGuid_format_def isHexDigit_def)
  have h: "rule_teamId_missing sample_env (team_options\<lparr>visibility := x, isPrivate := y\<rparr>) = None"
    "rule_teamId_guid sample_env (team_options\<lparr>visibility := x, isPrivate := y\<rparr>) = None"
    "rule_teamId_missing sample_env (team_options\<lparr>logoPath := z\<rparr>) = None"
    "rule_teamId_guid sample_env (team_options\<lparr>logoPath := z\<rparr>) = None" for x y z
    using g by (simp_all add: rule_teamId_missing_def rule_teamId_guid_def team_options_def
        no_options_def sample_env_def zero_guid_def)
  have a: "first_failure claimed_rules sample_env
     (team_options\<lparr>visibility := Some [], isPrivate := Some ''yes''\<rparr>) =
     Inl '' is not a valid visibility type. Allowed values are Private|Public''"
    by (simp add: claimed_rules_def h claimed_rule_visibility_def toLowerCase_def
        msg_visibility_def)
  have b: "validate sample_env
      \<lparr>options = team_options\<lparr>visibility := Some [], isPrivate := Some ''yes''\<rparr>\<rparr> =
     Inl ''yes is not a valid boolean value''"
    by (simp add: validate_first_failure rules_def h rule_visibility_def rule_isPrivate_def
        msg_boolean_def)
  have k: "claimed_rule_visibility sample_env (team_options\<lparr>logoPath := Some []\<rparr>) = None"
    "rule_visibility sample_env (team_options\<lparr>logoPath := Some []\<rparr>) = None"
    "rule_isPrivate sample_env (team_options\<lparr>logoPath := Some []\<rparr>) = None"
    "rule_logoPath sample_env (team_options\<lparr>logoPath := Some []\<rparr>) = None"
    "claimed_rule_logoPath sample_env (team_options\<lparr>logoPath := Some []\<rparr>) =
       Some (msg_directory ''/home/user'')"
    by (simp_all add: claimed_rule_visibility_def rule_visibility_def rule_isPrivate_def
        rule_logoPath_def claimed_rule_logoPath_def sample_env_def team_options_def
        no_options_def)
  have c: "first_failure claimed_rules sample_env (team_options\<lparr>logoPath := Some []\<rparr>) =
     Inl (msg_directory ''/home/user'')"
    by (simp add: claimed_rules_def h k)
  have d: "validate sample_env \<lparr>options = team_options\<lparr>logoPath := Some []\<rparr>\<rparr> = Inr True"
    by (simp add: validate_first_failure rules_def h k)
  show ?thesis using a b c d by simp
qed

subsection \<open>The mapping step and the dispatch\<close>

text \<open>
  C2. With \<^verbatim>\<open>visibility\<close> equal to \<^verbatim>\<open>Private\<close> and \<^verbatim>\<open>isPrivate\<close> undefined, the
  option \<^verbatim>\<open>isPrivate\<close> is the string \<^verbatim>\<open>Private\<close> after the mapping step, in the
  arguments after \<^verbatim>\<open>commandAction\<close> and in the bag given to the update service: a
  copy of the visibility, not a boolean.
\<close>

theorem commandAction_copies_visibility:
  assumes "visibility (options args) = Some ''Private''"
      and "isPrivate (options args) = None"
  shows "isPrivate (mapTeamOptionProperties (options args)) = Some ''Private'' \<and>
         isPrivate (options (fst (commandAction this cmd args cb))) = Some ''Private'' \<and>
         isPrivate (arg_options (snd (commandAction this cmd args cb))) = Some ''Private''"
  using assms by (simp add: commandAction_def mapTeamOptionProperties_def Let_def)

theorem commandAction_copies_visibility_witness:
  "visibility (options \<lparr>options = team_options\<lparr>visibility := Some ''Private''\<rparr>\<rparr>) = Some ''Private'' \<and>
   isPrivate (options \<lparr>options = team_options\<lparr>visibility := Some ''Private''\<rparr>\<rparr>) = None \<and>
   isPrivate (arg_options (snd (commandAction
       \<lparr>resource = ''https://graph.microsoft.com'', verbose = False, debug = False,
        handleRejectedODataJsonPromise = ()\<rparr> ()
       \<lparr>options = team_options\<lparr>visibility := Some ''Private''\<rparr>\<rparr> ()))) = Some ''Private''"
  using commandAction_copies_visibility
    [of "\<lparr>options = team_options\<lparr>visibility := Some ''Private''\<rparr>\<rparr>"
        "\<lparr>resource = ''https://graph.microsoft.com'', verbose = False, debug = False,
          handleRejectedODataJsonPromise = ()\<rparr>" "()" "()"]
  by (simp add: team_options_def no_options_def)

text \<open>
  C7. The invocation \<^verbatim>\<open>--teamId '00000000-0000-0000-0000-000000000000'\<close>
  \<^verbatim>\<open>--classification MBI\<close> gives a bag with the GUID under \<^verbatim>\<open>teamId\<close> and nothing
  under \<^verbatim>\<open>id\<close>. \<^verbatim>\<open>validate\<close> reads \<^verbatim>\<open>id\<close>, and returns
  \<^verbatim>\<open>Required parameter teamId missing\<close> for every GUID test and every file system,
  although the team id was given and is a GUID: validation does not succeed, and
  \<^verbatim>\<open>commandAction\<close> is never reached.
\<close>

theorem teamId_flag_not_read:
  "invocation [(''teamId'', zero_guid), (''classification'', ''MBI'')] =
     no_options\<lparr>teamId := Some zero_guid, classification := Some ''MBI''\<rparr> \<and>
   isValidGuid_format zero_guid \<and>
   validate e \<lparr>options = invocation [(''teamId'', zero_guid), (''classification'', ''MBI'')]\<rparr> =
     Inl ''Required parameter teamId missing''"
proof -
  have i: "invocation [(''teamId'', zero_guid), (''classification'', ''MBI'')] =
     no_options\<lparr>teamId := Some zero_guid, classification := Some ''MBI''\<rparr>"
    by (simp add: invocation_def set_property_def)
  have g: "isValidGuid_format zero_guid"
    by (simp add: isValidGuid_format_def zero_guid_def isHexDigit_def)
  have v: "validate e \<lparr>options = no_options\<lparr>teamId := Some zero_guid,
              classification := Some ''MBI''\<rparr>\<rparr> = Inl ''Required parameter teamId missing''"
    by (simp add: validate_def no_options_def msg_teamId_missing_def)
  show ?thesis using i g v by simp
qed

text \<open>
  No flag of the command has the name \<^verbatim>\<open>id\<close>, so no invocation fills the field that
  \<^verbatim>\<open>validate\<close> reads.
\<close>

lemma invocation_never_sets_id:
  "\<forall>(flag, v) \<in> set flags. flag \<noteq> ''id'' \<Longrightarrow> id_opt (invocation flags) = None"
proof -
  have "id_opt (fold (\<lambda>(flag, v). set_property flag (Some v)) flags opts) = id_opt opts"
    if "\<forall>(flag, v) \<in> set flags. flag \<noteq> ''id''" for opts
    using that by (induction flags arbitrary: opts) (auto simp: set_property_def)
  then show ?thesis
    if "\<forall>(flag, v) \<in> set flags. flag \<noteq> ''id''"
    using that by (simp add: invocation_def no_options_def)
qed

text \<open>
  What the source does once the team id is in the field \<^verbatim>\<open>id\<close>: with a team id
  that passes the GUID test, the classification \<^verbatim>\<open>MBI\<close> and no other option,
  validation succeeds and \<^verbatim>\<open>commandAction\<close> gives the update service the bag as it
  was, with the classification \<^verbatim>\<open>MBI\<close> and \<^verbatim>\<open>isPrivate\<close> untouched.
\<close>

lemma classification_only_with_id:
  assumes "g \<noteq> []" and "isValidGuid e g"
      and "options args = no_options\<lparr>id_opt := Some g, classification := Some ''MBI''\<rparr>"
  shows "validate e args = Inr True \<and>
         classification (arg_options (snd (commandAction this cmd args cb))) = Some ''MBI'' \<and>
         isPrivate (arg_options (snd (commandAction this cmd args cb))) = isPrivate (options args) \<and>
         arg_options (snd (commandAction this cmd args cb)) = options args"
  using assms
  by (simp add: validate_def commandAction_def mapTeamOptionProperties_def no_options_def Let_def)

lemma classification_only_with_id_example:
  "zero_guid \<noteq> [] \<and> isValidGuid sample_env zero_guid \<and>
   validate sample_env
     \<lparr>options = no_options\<lparr>id_opt := Some zero_guid, classification := Some ''MBI''\<rparr>\<rparr> = Inr True \<and>
   arg_options (snd (commandAction
       \<lparr>resource = ''https://graph.microsoft.com'', verbose = False, debug = False,
        handleRejectedODataJsonPromise = ()\<rparr> ()
       \<lparr>options = no_options\<lparr>id_opt := Some zero_guid, classification := Some ''MBI''\<rparr>\<rparr> ()))
     = no_options\<lparr>id_opt := Some zero_guid, classification := Some ''MBI''\<rparr>"
proof -
  have g: "isValidGuid sample_env zero_guid"
    by (simp add: sample_env_def isValidGuid_format_def zero_guid_def isHexDigit_def)
  have n: "zero_guid \<noteq> []"
    by (simp add: zero_guid_def)
  show ?thesis
    using classification_only_with_id [OF n g, of
        "\<lparr>options = no_options\<lparr>id_opt := Some zero_guid, classification := Some ''MBI''\<rparr>\<rparr>"
        "\<lparr>resource = ''https://graph.microsoft.com'', verbose = False, debug = False,
          handleRejectedODataJsonPromise = ()\<rparr>" "()" "()"] g n
    by simp
qed

text \<open>
  C9. With \<^verbatim>\<open>isPrivate\<close> supplied and \<^verbatim>\<open>visibility\<close> not supplied, the mapping step
  sets \<^verbatim>\<open>isPrivate\<close> to \<^verbatim>\<open>undefined\<close>: the assignment has no condition, and the
  bag given to the update service is the one of an invocation without
  \<^verbatim>\<open>isPrivate\<close>.
\<close>

theorem explicit_isPrivate_discarded:
  assumes "isPrivate (options args) = Some v"
      and "visibility (options args) = None"
  shows "isPrivate (mapTeamOptionProperties (options args)) = None \<and>
         isPrivate (arg_options (snd (commandAction this cmd args cb))) = None \<and>
         arg_options (snd (commandAction this cmd args cb)) =
         arg_options (snd (commandAction this cmd
                        (args\<lparr>options := (options args)\<lparr>isPrivate := None\<rparr>\<rparr>) cb))"
  using assms by (simp add: commandAction_def mapTeamOptionProperties_def Let_def)

theorem explicit_isPrivate_discarded_witness:
  "isPrivate (options \<lparr>options = team_options\<lparr>isPrivate := Some ''true''\<rparr>\<rparr>) = Some ''true'' \<and>
   visibility (options \<lparr>options = team_options\<lparr>isPrivate := Some ''true''\<rparr>\<rparr>) = None \<and>
   arg_options (snd (commandAction
       \<lparr>resource = ''https://graph.microsoft.com'', verbose = False, debug = False,
        handleRejectedODataJsonPromise = ()\<rparr> ()
       \<lparr>options = team_options\<lparr>isPrivate := Some ''true''\<rparr>\<rparr> ())) = team_options"
  using explicit_isPrivate_discarded
    [of "\<lparr>options = team_options\<lparr>isPrivate := Some ''true''\<rparr>\<rparr>" "''true''"
        "\<lparr>resource = ''https://graph.microsoft.com'', verbose = False, debug = False,
          handleRejectedODataJsonPromise = ()\<rparr>" "()" "()"]
  by (simp add: team_options_def no_options_def commandAction_def mapTeamOptionProperties_def)

text \<open>
  C10. The mapping step changes the field \<^verbatim>\<open>isPrivate\<close> only: each of the ten
  other fields has the value it had, and putting the old \<^verbatim>\<open>isPrivate\<close> back gives
  the old bag, after the mapping step and in the bag given to the update service.
\<close>

theorem mapTeamOptionProperties_frame:
  "teamId (mapTeamOptionProperties opts) = teamId opts \<and>
   id_opt (mapTeamOptionProperties opts) = id_opt opts \<and>
   displayName (mapTeamOptionProperties opts) = displayName opts \<and>
   description (mapTeamOptionProperties opts) = description opts \<and>
   owners (mapTeamOptionProperties opts) = owners opts \<and>
   members (mapTeamOptionProperties opts) = members opts \<and>
   mailNickName (mapTeamOptionProperties opts) = mailNickName opts \<and>
   classification (mapTeamOptionProperties opts) = classification opts \<and>
   visibility (mapTeamOptionProperties opts) = visibility opts \<and>
   logoPath (mapTeamOptionProperties opts) = logoPath opts \<and>
   (mapTeamOptionProperties opts)\<lparr>isPrivate := isPrivate opts\<rparr> = opts \<and>
   (arg_options (snd (commandAction this cmd \<lparr>options = opts\<rparr> cb)))\<lparr>isPrivate := isPrivate opts\<rparr>
     = opts"
  by (simp add: mapTeamOptionProperties_def commandAction_def Let_def)

subsection \<open>Telemetry\<close>

text \<open>
  C8. For each of the six names \<^verbatim>\<open>displayName\<close>, \<^verbatim>\<open>description\<close>,
  \<^verbatim>\<open>mailNickName\<close>, \<^verbatim>\<open>classification\<close>, \<^verbatim>\<open>visibility\<close> and \<^verbatim>\<open>isPrivate\<close>,
  \<^verbatim>\<open>getTelemetryProperties\<close> stores the boolean that says whether the option of
  that name is defined, whatever the base class has stored, whatever the value of the
  option is and whatever the other options are. An option supplied as the empty
  string gives \<^verbatim>\<open>true\<close>, an omitted one \<^verbatim>\<open>false\<close>.
\<close>

theorem telemetry_flags:
  "getTelemetryProperties super_props args ''displayName''
     = Some (Boolean (displayName (options args) \<noteq> None)) \<and>
   getTelemetryProperties super_props args ''description''
     = Some (Boolean (description (options args) \<noteq> None)) \<and>
   getTelemetryProperties super_props args ''mailNickName''
     = Some (Boolean (mailNickName (options args) \<noteq> None)) \<and>
   getTelemetryProperties super_props args ''classification''
     = Some (Boolean (classification (options args) \<noteq> None)) \<and>
   getTelemetryProperties super_props args ''visibility''
     = Some (Boolean (visibility (options args) \<noteq> None)) \<and>
   getTelemetryProperties super_props args ''isPrivate''
     = Some (Boolean (isPrivate (options args) \<noteq> None)) \<and>
   getTelemetryProperties super_props \<lparr>options = no_options\<lparr>displayName := Some []\<rparr>\<rparr>
     ''displayName'' = Some (Boolean True) \<and>
   getTelemetryProperties super_props \<lparr>options = no_options\<rparr>
     ''displayName'' = Some (Boolean False)"
  by (simp add: telemetry_unfold no_options_def)

end
